theory Spec2Isabelle
  imports Main
begin

section \<open>Values exchanged with Discord and with the nomination store\<close>

text \<open>
  The exceptions that can leave a command. \<open>ResponseCodeError\<close> is the one raised by
  \<open>bot.api_client.get\<close> and \<open>patch\<close> (it carries the status of the response);
  \<open>ClientResponseError\<close> is what \<open>resp.raise_for_status()\<close> raises on the manual
  \<open>session.post\<close> of \<open>watch_command\<close>; \<open>MissingRequiredArgument\<close> is what the command
  framework raises, with the name of the parameter, when the message has no text left for
  a parameter without a default.
\<close>

datatype error =
    ResponseCodeError int
  | ClientResponseError int
  | MissingRequiredArgument string
  | ValueError
  | IndexError
  | AttributeError
  | OtherError string

text \<open>
  A nomination as the store serialises it (section 3 of the specification). The fields are
  the keys of the JSON object; \<open>ended_at\<close> is \<open>null\<close> while the nomination is active.
\<close>

record nomination =
  n_id :: int
  n_user :: int
  n_actor :: int
  n_reason :: string
  n_active :: bool
  n_inserted_at :: string
  n_ended_at :: "string option"
  n_end_reason :: string

text \<open>
  The decoded body of the reply to the create request: the created nomination, or the
  store's validation errors (a JSON object from field names to lists of messages).
\<close>

datatype response_data =
    Nomination nomination
  | FieldErrors "(string \<times> string list) list"

text \<open>\<open>response_data.get('user', False)\<close>, read as a condition.\<close>

fun get_user_truthy :: "response_data \<Rightarrow> bool" where
  "get_user_truthy (Nomination n) = (n_user n \<noteq> 0)"
| "get_user_truthy (FieldErrors es) =
     (case map_of es ''user'' of None \<Rightarrow> False | Some msgs \<Rightarrow> msgs \<noteq> [])"

record post_reply =
  resp_status :: int
  resp_json :: response_data

text \<open>
  The command target: a \<open>Member\<close>, a \<open>User\<close> or a proxy object. \<open>member_roles\<close> is
  \<open>Some\<close> of the role ids exactly when the object is a guild \<open>Member\<close>; \<open>u_str\<close> is
  \<open>str(user)\<close>.
\<close>

record target =
  u_id :: int
  u_bot :: bool
  u_str :: string
  u_display_name :: string
  member_roles :: "int list option"

record cmd_context =
  author_id :: int
  author_str :: string

type_synonym cache = "int \<rightharpoonup> response_data"

datatype colour = Blue | Blurple

record embed =
  e_title :: string
  e_colour :: colour
  e_url :: "string option"
  e_description :: "string option"

text \<open>A value of the JSON object sent with a partial update.\<close>

datatype jval = JStr string | JBool bool

text \<open>
  What a command does that is visible outside it, in the order it does it: messages sent
  to the invoking channel, calls of the two inherited cache methods, requests to the store
  (\<open>Post\<close> carries the endpoint and the \<open>actor\<close>, \<open>reason\<close> and \<open>user\<close> of the
  JSON object; \<open>Get\<close> the endpoint and the query parameters; \<open>Patch\<close> the endpoint and the
  JSON object), log records and the hand-over to the paginator. Sending a message, logging
  and paginating are taken to succeed; requests to the store may fail, and their results
  are arguments of the commands.
\<close>

datatype event =
    Send string
  | SendEmbed embed
  | FetchUserCache
  | RemoveUser int
  | Post string int string int
  | Get string "(string \<times> string) list"
  | Patch string "(string \<times> jval) list"
  | LogTrace string
  | LogDebug string
  | Paginate "string list" embed

record run =
  outcome :: "error + unit"
  watched_users :: cache
  trace :: "event list"

definition returned :: "cache \<Rightarrow> event list \<Rightarrow> run" where
  "returned w t = \<lparr>outcome = Inr (), watched_users = w, trace = t\<rparr>"

definition raised :: "error \<Rightarrow> cache \<Rightarrow> event list \<Rightarrow> run" where
  "raised e w t = \<lparr>outcome = Inl e, watched_users = w, trace = t\<rparr>"

section \<open>Python's string helpers\<close>

text \<open>\<open>str\<close> of an integer.\<close>

fun str_nat :: "nat \<Rightarrow> string" where
  "str_nat n =
     (if n < 10 then [''0123456789'' ! n]
      else str_nat (n div 10) @ [''0123456789'' ! (n mod 10)])"

declare str_nat.simps [simp del]

definition str_int :: "int \<Rightarrow> string" where
  "str_int i = (if i < 0 then CHR ''-'' # str_nat (nat (- i)) else str_nat (nat i))"

text \<open>Reading a decimal numeral back: the inverse of \<open>str_nat\<close>.\<close>

definition digit_val :: "char \<Rightarrow> nat" where
  "digit_val c = of_char c - 48"

definition nat_of_digits :: "string \<Rightarrow> nat" where
  "nat_of_digits s = foldl (\<lambda>a c. 10 * a + digit_val c) 0 s"

text \<open>\<open>sep.join(xs)\<close>\<close>

fun join :: "string \<Rightarrow> string list \<Rightarrow> string" where
  "join sep [] = []"
| "join sep [x] = x"
| "join sep (x # y # ys) = x @ sep @ join sep (y # ys)"

text \<open>\<open>xs[i]\<close> on a list: a negative index counts from the end, an index out of range raises.\<close>

definition getitem :: "'a list \<Rightarrow> int \<Rightarrow> error + 'a" where
  "getitem xs i =
     (if 0 \<le> i \<and> i < int (length xs) then Inr (xs ! nat i)
      else if i < 0 \<and> - int (length xs) \<le> i then Inr (xs ! nat (int (length xs) + i))
      else Inl IndexError)"

text \<open>A list comprehension whose element expression may raise: it stops at the first raise.\<close>

fun collect :: "('a \<Rightarrow> error + 'b) \<Rightarrow> 'a list \<Rightarrow> error + 'b list" where
  "collect f [] = Inr []"
| "collect f (x # xs) =
     (case f x of
        Inl e \<Rightarrow> Inl e
      | Inr y \<Rightarrow> (case collect f xs of Inl e \<Rightarrow> Inl e | Inr ys \<Rightarrow> Inr (y # ys)))"

definition newline :: char where
  "newline = CHR 0x0A"

text \<open>\<open>text.split(c)\<close> for a single character \<open>c\<close>.\<close>

fun split_on :: "char \<Rightarrow> string \<Rightarrow> string list" where
  "split_on c [] = [[]]"
| "split_on c (x # xs) =
     (if x = c then [] # split_on c xs
      else (case split_on c xs of [] \<Rightarrow> [[x]] | l # ls \<Rightarrow> (x # l) # ls))"

definition startswith :: "string \<Rightarrow> string \<Rightarrow> bool" where
  "startswith s p = (take (length p) s = p)"

definition space_or_tab :: "char \<Rightarrow> bool" where
  "space_or_tab c = (c = CHR '' '' \<or> c = CHR 0x09)"

fun common_prefix :: "string \<Rightarrow> string \<Rightarrow> string" where
  "common_prefix (x # xs) (y # ys) = (if x = y then x # common_prefix xs ys else [])"
| "common_prefix _ _ = []"

text \<open>One round of the margin loop of \<open>textwrap.dedent\<close>.\<close>

definition narrow :: "string \<Rightarrow> string \<Rightarrow> string" where
  "narrow indent margin =
     (if startswith indent margin then margin
      else if startswith margin indent then indent
      else common_prefix margin indent)"

text \<open>
  \<open>textwrap.dedent\<close>: lines of spaces and tabs only become empty, the margin is the
  leading whitespace common to the other lines, and it is removed from every line that
  starts with it.
\<close>

definition dedent :: "string \<Rightarrow> string" where
  "dedent text =
     (let ls = map (\<lambda>l. if list_all space_or_tab l then [] else l) (split_on newline text);
          indents = map (takeWhile space_or_tab) (filter (\<lambda>l. l \<noteq> []) ls);
          margin = (case indents of [] \<Rightarrow> [] | i # rest \<Rightarrow> fold narrow rest i)
      in if margin \<noteq> []
         then join [newline]
                (map (\<lambda>l. if startswith l margin then drop (length margin) l else l) ls)
         else join [newline] ls)"

text \<open>\<open>str.isspace\<close> on the characters below 256, and \<open>str.strip()\<close>.\<close>

definition isspace :: "char \<Rightarrow> bool" where
  "isspace c = List.member (map char_of [9, 10, 11, 12, 13, 28, 29, 30, 31, 32, 133, 160 :: nat]) c"

definition strip :: "string \<Rightarrow> string" where
  "strip s = rev (dropWhile isspace (rev (dropWhile isspace s)))"

section \<open>The watch channel base class\<close>

text \<open>
  Modelled from the spec: \<open>WatchChannel.fetch_user_cache\<close>, which is inherited from
  \<open>watchchannel.py\<close>. Section 4.1: the refresh re-fetches the currently active
  nominations and replaces the cache contents; it returns success or failure, and a
  failure leaves the prior cache intact. The entries are keyed by the nominated user.
\<close>

datatype refresh = RefreshFailed | Refreshed "nomination list"

fun fetch_user_cache :: "cache \<Rightarrow> refresh \<Rightarrow> bool \<times> cache" where
  "fetch_user_cache w RefreshFailed = (False, w)"
| "fetch_user_cache w (Refreshed ns) = (True, map_of (map (\<lambda>n. (n_user n, Nomination n)) ns))"

text \<open>
  Modelled from the spec: \<open>WatchChannel._remove_user\<close>, the cache's \<open>remove(user_id)\<close>
  of section 4.1, which evicts the entry of the user.
\<close>

definition remove_user_entry :: "cache \<Rightarrow> int \<Rightarrow> cache" where
  "remove_user_entry w uid = w(uid := None)"

section \<open>The talent pool commands\<close>

definition api_endpoint :: string where
  "api_endpoint = ''bot/nominations''"

definition msg_only_humans :: "cmd_context \<Rightarrow> string" where
  "msg_only_humans ctx =
     '':x: I'm sorry '' @ author_str ctx @ '', I'm afraid I can't do that. I only watch humans.''"

definition msg_staff :: string where
  "msg_staff = '':x: Nominating staff members, eh? Here's a cookie :cookie:''"

definition msg_cache_failed :: "target \<Rightarrow> string" where
  "msg_cache_failed user = '':x: Failed to update the user cache; can't add '' @ u_str user"

definition msg_already_watched :: string where
  "msg_already_watched = '':x: The specified user is already being watched in the talent pool''"

definition msg_not_in_database :: string where
  "msg_not_in_database = '':x: The specified user can't be found in the database tables''"

definition msg_watching :: "target \<Rightarrow> string" where
  "msg_watching user =
     '':white_check_mark: Messages sent by '' @ u_str user
       @ '' will now be relayed to the talent pool channel''"

text \<open>\<open>isinstance(user, Member) and any(role.id in STAFF_ROLES for role in user.roles)\<close>\<close>

definition is_staff_member :: "int list \<Rightarrow> target \<Rightarrow> bool" where
  "is_staff_member STAFF_ROLES user =
     (case member_roles user of
        None \<Rightarrow> False
      | Some roles \<Rightarrow> list_ex (\<lambda>r. r \<in> set STAFF_ROLES) roles)"

text \<open>
  \<open>TalentPool.watch_command\<close>. \<open>STAFF_ROLES\<close> comes from the bot's configuration; the
  outcome of the refresh and the reply to the create request come from the store. The role
  check of the \<open>with_role\<close> decorator and the parsing of the arguments happen before the
  command is called and are not part of it. \<open>raise_for_status\<close> raises on a status of 400
  or more.
\<close>

definition watch_command ::
  "int list \<Rightarrow> cache \<Rightarrow> cmd_context \<Rightarrow> target \<Rightarrow> string \<Rightarrow> refresh \<Rightarrow> post_reply \<Rightarrow> run" where
  "watch_command STAFF_ROLES w ctx user reason rf resp =
     (if u_bot user then returned w [Send (msg_only_humans ctx)]
      else if is_staff_member STAFF_ROLES user then returned w [Send msg_staff]
      else
        (case fetch_user_cache w rf of (ok, w1) \<Rightarrow>
          if \<not> ok then returned w1 [FetchUserCache, Send (msg_cache_failed user)]
          else if w1 (u_id user) \<noteq> None
            then returned w1 [FetchUserCache, Send msg_already_watched]
          else
            (let req = Post api_endpoint (author_id ctx) reason (u_id user) in
             if resp_status resp = 400 \<and> get_user_truthy (resp_json resp)
               then returned w1 [FetchUserCache, req, Send msg_not_in_database]
             else if 400 \<le> resp_status resp
               then raised (ClientResponseError (resp_status resp)) w1 [FetchUserCache, req]
             else returned (w1(u_id user \<mapsto> resp_json resp))
                    [FetchUserCache, req, Send (msg_watching user)])))"


text \<open>
  \<open>TalentPool.unwatch_command\<close>. \<open>got\<close> is what \<open>api_client.get\<close> returns or raises for
  the query of the user's active nominations (the default parameters chained with the user
  id), \<open>patched\<close> what \<open>api_client.patch\<close> returns or raises.
\<close>

definition msg_no_active :: string where
  "msg_no_active = '':x: The specified user does not have an active nomination''"

definition msg_unwatched :: "target \<Rightarrow> string" where
  "msg_unwatched user =
     '':white_check_mark: Messages sent by '' @ u_str user @ '' will no longer be relayed''"

definition api_default_params :: "(string \<times> string) list" where
  "api_default_params = [(''active'', ''true''), (''ordering'', ''-inserted_at'')]"

definition unwatch_command ::
  "cache \<Rightarrow> cmd_context \<Rightarrow> target \<Rightarrow> string \<Rightarrow> error + nomination list
     \<Rightarrow> error + nomination \<Rightarrow> run" where
  "unwatch_command w ctx user reason got patched =
     (let req = Get api_endpoint (api_default_params @ [(''user__id'', str_int (u_id user))]) in
      case got of
        Inl e \<Rightarrow> raised e w [req]
      | Inr active_nomination \<Rightarrow>
          (case active_nomination of
             [] \<Rightarrow> returned w [req, Send msg_no_active]
           | [nomination] \<Rightarrow>
               (let upd = Patch (api_endpoint @ ''/'' @ str_int (n_id nomination))
                            [(''end_reason'', JStr reason), (''active'', JBool False)] in
                case patched of
                  Inl e \<Rightarrow> raised e w [req, upd]
                | Inr _ \<Rightarrow>
                    returned (remove_user_entry w (u_id user))
                      [req, upd, Send (msg_unwatched user), RemoveUser (u_id user)])
           | _ \<Rightarrow> raised ValueError w [req]))"

text \<open>\<open>TalentPool.edit_reason_command\<close>.\<close>

definition msg_cant_find :: "int \<Rightarrow> string" where
  "msg_cant_find nomination_id =
     '':x: Can't find a nomination with id `'' @ str_int nomination_id @ ''`''"

definition msg_updated :: "string \<Rightarrow> string" where
  "msg_updated field = '':white_check_mark: Updated the '' @ field @ '' of the nomination!''"

definition log_404 :: "int \<Rightarrow> string" where
  "log_404 nomination_id =
     ''Nomination API 404: Can't nomination with id '' @ str_int nomination_id"

definition log_changing :: "string \<Rightarrow> int \<Rightarrow> string \<Rightarrow> string" where
  "log_changing field nomination_id reason =
     ''Changing '' @ field @ '' for nomination with id '' @ str_int nomination_id
       @ '' to '' @ reason"

definition edit_reason_command ::
  "cache \<Rightarrow> cmd_context \<Rightarrow> int \<Rightarrow> string \<Rightarrow> error + nomination \<Rightarrow> error + nomination \<Rightarrow> run" where
  "edit_reason_command w ctx nomination_id reason got patched =
     (let url = api_endpoint @ ''/'' @ str_int nomination_id; req = Get url [] in
      case got of
        Inl e \<Rightarrow>
          (if e = ResponseCodeError 404
           then returned w [req, LogTrace (log_404 nomination_id), Send (msg_cant_find nomination_id)]
           else raised e w [req])
      | Inr nomination \<Rightarrow>
          (let field = (if n_active nomination then ''reason'' else ''end_reason'');
               said = LogTrace (log_changing field nomination_id reason);
               upd = Patch url [(field, JStr reason)] in
           case patched of
             Inl e \<Rightarrow> raised e w [req, said, upd]
           | Inr _ \<Rightarrow> returned w [req, said, upd, Send (msg_updated field)]))"

text \<open>
  \<open>TalentPool._nomination_to_string\<close>. \<open>guild\<close> is what \<open>self.bot.get_guild(Guild.id)\<close>
  returns: \<open>None\<close>, or the guild, of which the function uses the member lookup
  (\<open>get_member\<close>, here a map from the id of a member to its \<open>mention\<close>).
  \<open>format_infraction\<close> is the helper of \<open>bot.utils.time\<close>, applied to a timestamp of the
  record. The result comes with the records the function hands to the logger.
\<close>

type_synonym guild = "int \<rightharpoonup> string"

definition indent16 :: string where
  "indent16 = replicate 16 (CHR '' '')"

definition template_line :: "string \<Rightarrow> string" where
  "template_line l = indent16 @ l @ [newline]"

definition nomination_to_string ::
  "guild option \<Rightarrow> (string option \<Rightarrow> error + string) \<Rightarrow> nomination
     \<Rightarrow> (error + string) \<times> event list" where
  "nomination_to_string guild format_infraction nomination_object =
     (case guild of
        None \<Rightarrow> (Inl AttributeError, [])
      | Some members \<Rightarrow>
          (let actor_id = n_actor nomination_object;
               actor = members actor_id;
               active = n_active nomination_object;
               logged = [LogDebug (if active then ''True'' else ''False''),
                         LogDebug ''<class 'str'>''];
               actor_text = (case actor of Some mention \<Rightarrow> mention | None \<Rightarrow> str_int actor_id)
           in
           case format_infraction (Some (n_inserted_at nomination_object)) of
             Inl e \<Rightarrow> (Inl e, logged)
           | Inr start_date \<Rightarrow>
               if active then
                 (Inr (strip (dedent (
                    [newline]
                    @ template_line ''===============''
                    @ template_line ''Status: **Active**''
                    @ template_line (''Date: '' @ start_date)
                    @ template_line (''Actor: '' @ actor_text)
                    @ template_line (''Reason: '' @ n_reason nomination_object)
                    @ template_line (''Nomination ID: `'' @ str_int (n_id nomination_object) @ ''`'')
                    @ template_line ''===============''
                    @ indent16))), logged)
               else
                 (case format_infraction (n_ended_at nomination_object) of
                    Inl e \<Rightarrow> (Inl e, logged)
                  | Inr end_date \<Rightarrow>
                      (Inr (strip (dedent (
                         [newline]
                         @ template_line ''===============''
                         @ template_line ''Status: Inactive''
                         @ template_line (''Date: '' @ start_date)
                         @ template_line (''Actor: '' @ actor_text)
                         @ template_line (''Reason: '' @ n_reason nomination_object)
                         @ [newline]
                         @ template_line (''End date: '' @ end_date)
                         @ template_line (''Unwatch reason: '' @ n_end_reason nomination_object)
                         @ template_line (''Nomination ID: `'' @ str_int (n_id nomination_object) @ ''`'')
                         @ template_line ''===============''
                         @ indent16))), logged))))"

text \<open>\<open>TalentPool.history_command\<close>: the records are rendered one after the other.\<close>

fun render_all ::
  "guild option \<Rightarrow> (string option \<Rightarrow> error + string) \<Rightarrow> nomination list
     \<Rightarrow> (error + string list) \<times> event list" where
  "render_all guild format_infraction [] = (Inr [], [])"
| "render_all guild format_infraction (n # ns) =
     (case nomination_to_string guild format_infraction n of
        (Inl e, logged) \<Rightarrow> (Inl e, logged)
      | (Inr line, logged) \<Rightarrow>
          (case render_all guild format_infraction ns of
             (Inl e, later) \<Rightarrow> (Inl e, logged @ later)
           | (Inr lines, later) \<Rightarrow> (Inr (line # lines), logged @ later)))"

definition msg_never_nominated :: string where
  "msg_never_nominated = '':warning: This user has never been nominated''"

definition history_command ::
  "guild option \<Rightarrow> (string option \<Rightarrow> error + string) \<Rightarrow> cache \<Rightarrow> cmd_context \<Rightarrow> target
     \<Rightarrow> error + nomination list \<Rightarrow> run" where
  "history_command guild format_infraction w ctx user got =
     (let req = Get api_endpoint
                  [(''user__id'', str_int (u_id user)), (''ordering'', ''-active,-inserted_at'')] in
      case got of
        Inl e \<Rightarrow> raised e w [req]
      | Inr result \<Rightarrow>
          if result = [] then returned w [req, Send msg_never_nominated]
          else
            (let embed = \<lparr>e_title = ''Nominations for '' @ u_display_name user
                                     @ '' `('' @ str_int (u_id user) @ '')`'',
                          e_colour = Blue, e_url = None, e_description = None\<rparr> in
             case render_all guild format_infraction result of
               (Inl e, logged) \<Rightarrow> raised e w (req # logged)
             | (Inr lines, logged) \<Rightarrow> returned w (req # logged @ [Paginate lines embed])))"

section \<open>The site rules command\<close>

text \<open>
  \<open>Site.site_rules\<close>. \<open>PAGES_URL\<close> is built from the configured site address; \<open>rules\<close>
  are the indices given on the command line; \<open>got\<close> is what \<open>api_client.get('rules')\<close>
  returns or raises.
\<close>

definition msg_default_rules :: "string \<Rightarrow> string" where
  "msg_default_rules PAGES_URL =
     ''The rules and guidelines that apply to this community can be found on''
     @ '' our [rules page]('' @ PAGES_URL @ ''/rules). We expect''
     @ '' all members of the community to have read and understood these.''"

definition msg_invalid_indices :: "int list \<Rightarrow> string" where
  "msg_invalid_indices invalid_indices =
     '':x: Invalid rule indices '' @ join '', '' (map str_int invalid_indices)"

definition rule_line :: "string list \<Rightarrow> int \<Rightarrow> error + string" where
  "rule_line full_rules pick =
     (case getitem full_rules pick of
        Inl e \<Rightarrow> Inl e
      | Inr rule \<Rightarrow> Inr (''**'' @ str_int pick @ ''.** '' @ rule))"

definition site_rules ::
  "string \<Rightarrow> int list \<Rightarrow> error + string list \<Rightarrow> (error + unit) \<times> event list" where
  "site_rules PAGES_URL rules got =
     (let rules_embed = \<lparr>e_title = ''Rules'', e_colour = Blurple,
                          e_url = Some (PAGES_URL @ ''/rules''), e_description = None\<rparr> in
      if rules = []
        then (Inr (), [SendEmbed (rules_embed\<lparr>e_description := Some (msg_default_rules PAGES_URL)\<rparr>)])
      else
        (let req = Get ''rules'' [(''link_format'', ''md'')] in
         case got of
           Inl e \<Rightarrow> (Inl e, [req])
         | Inr full_rules \<Rightarrow>
             (let invalid_indices =
                    filter (\<lambda>pick. pick < 0 \<or> int (length full_rules) \<le> pick) rules in
              if invalid_indices \<noteq> []
                then (Inr (), [req, Send (msg_invalid_indices invalid_indices)])
              else
                (case collect (rule_line full_rules) rules of
                   Inl e \<Rightarrow> (Inl e, [req])
                 | Inr final_rules \<Rightarrow> (Inr (), [req, Paginate final_rules rules_embed])))))"

section \<open>Reading a trace\<close>

text \<open>The partial updates of a trace: endpoint and JSON object of each, in order.\<close>

fun patches :: "event list \<Rightarrow> (string \<times> (string \<times> jval) list) list" where
  "patches [] = []"
| "patches (Patch url body # evs) = (url, body) # patches evs"
| "patches (_ # evs) = patches evs"


section \<open>Sample values\<close>

definition sample_ctx :: cmd_context where
  "sample_ctx = \<lparr>author_id = 1, author_str = ''mod#0001''\<rparr>"

definition sample_user :: target where
  "sample_user = \<lparr>u_id = 42, u_bot = False, u_str = ''nominee#0042'',
                  u_display_name = ''nominee'', member_roles = None\<rparr>"



definition sample_staff_roles :: "int list" where
  "sample_staff_roles = [1, 2, 3, 4]"

definition sample_nomination :: nomination where
  "sample_nomination = \<lparr>n_id = 7, n_user = 42, n_actor = 1, n_reason = ''helpful'',
     n_active = True, n_inserted_at = ''2019-07-01T10:00:00Z'', n_ended_at = None,
     n_end_reason = []\<rparr>"

definition sample_ended :: nomination where
  "sample_ended = \<lparr>n_id = 5, n_user = 42, n_actor = 1, n_reason = ''helpful'',
     n_active = False, n_inserted_at = ''2019-05-01T10:00:00Z'',
     n_ended_at = Some ''2019-06-01T10:00:00Z'', n_end_reason = ''inactive''\<rparr>"

definition sample_created :: post_reply where
  "sample_created = \<lparr>resp_status = 201, resp_json = Nomination sample_nomination\<rparr>"

definition sample_unknown_user :: post_reply where
  "sample_unknown_user =
     \<lparr>resp_status = 400, resp_json = FieldErrors [(''user'', [''Invalid pk - object does not exist.''])]\<rparr>"


section \<open>Policy refusals of the watch command\<close>


lemma not_staff_sample_user: "\<not> is_staff_member sample_staff_roles sample_user"
  by (simp add: is_staff_member_def sample_user_def)






section \<open>Failing closed on a failed refresh\<close>

text \<open>
  C2. When the target passes the policy checks and the refresh of the cache fails, the
  watch command tells the user that the cache could not be updated and returns: it has
  called the refresh and sent that one message, so no create request is made, and the
  cache is the one it started with.
\<close>

theorem watch_command_refresh_failed:
  assumes "\<not> u_bot user" and "\<not> is_staff_member STAFF_ROLES user"
  shows "watch_command STAFF_ROLES w ctx user reason RefreshFailed resp =
           returned w [FetchUserCache, Send (msg_cache_failed user)]"
  using assms by (simp add: watch_command_def)

theorem watch_command_refresh_failed_witness:
  "watch_command sample_staff_roles [42 \<mapsto> Nomination sample_ended] sample_ctx sample_user
     ''helpful'' RefreshFailed sample_created
   = returned [42 \<mapsto> Nomination sample_ended]
       [FetchUserCache, Send '':x: Failed to update the user cache; can't add nominee#0042'']"
proof -
  have human: "\<not> u_bot sample_user"
    by (simp add: sample_user_def)
  have "msg_cache_failed sample_user
          = '':x: Failed to update the user cache; can't add nominee#0042''"
    by (simp add: msg_cache_failed_def sample_user_def)
  with watch_command_refresh_failed [OF human not_staff_sample_user] show ?thesis
    by simp
qed

section \<open>Watching a user twice\<close>

lemmas watch_msg_defs = msg_only_humans_def msg_staff_def msg_cache_failed_def
  msg_already_watched_def msg_not_in_database_def msg_watching_def

lemma refreshed_contains:
  "(map_of (map (\<lambda>n. (n_user n, Nomination n)) ns) k \<noteq> None) = (k \<in> set (map n_user ns))"
  by (simp add: map_of_eq_None_iff image_image)

lemma watch_command_confirmed:
  assumes "outcome (watch_command STAFF_ROLES w ctx user reason rf resp) = Inr ()"
    and "Send (msg_watching user)
           \<in> set (trace (watch_command STAFF_ROLES w ctx user reason rf resp))"
  shows "\<not> u_bot user \<and> \<not> is_staff_member STAFF_ROLES user \<and>
         watched_users (watch_command STAFF_ROLES w ctx user reason rf resp) (u_id user)
           = Some (resp_json resp)"
  using assms
  by (auto simp add: watch_command_def returned_def raised_def watch_msg_defs Let_def
      split: if_splits prod.splits)

text \<open>
  C3 (as amended). Let a watch command for a user return with its confirmation sent. Then
  the cache holds, under the id of the user, the body of the store's reply to the create
  request. A later watch command for the same user starts by refreshing the cache again.
  If that refresh succeeds and the store still lists a nomination of the user, the command
  answers with the notice that the user is already watched and makes no create request.
  If that refresh fails, the command reports the failed refresh and makes no create request
  either.
\<close>

theorem watch_command_then_conflict:
  assumes ok: "outcome (watch_command STAFF_ROLES w ctx user reason rf resp) = Inr ()"
    and sent: "Send (msg_watching user)
                 \<in> set (trace (watch_command STAFF_ROLES w ctx user reason rf resp))"
    and listed: "u_id user \<in> set (map n_user active)"
  shows "watched_users (watch_command STAFF_ROLES w ctx user reason rf resp) (u_id user)
           = Some (resp_json resp)
       \<and> watch_command STAFF_ROLES
            (watched_users (watch_command STAFF_ROLES w ctx user reason rf resp))
            ctx' user reason' (Refreshed active) resp'
           = returned (map_of (map (\<lambda>n. (n_user n, Nomination n)) active))
               [FetchUserCache, Send msg_already_watched]
       \<and> watch_command STAFF_ROLES
            (watched_users (watch_command STAFF_ROLES w ctx user reason rf resp))
            ctx' user reason' RefreshFailed resp'
           = returned (watched_users (watch_command STAFF_ROLES w ctx user reason rf resp))
               [FetchUserCache, Send (msg_cache_failed user)]"
proof -
  from watch_command_confirmed [OF ok sent]
  have human: "\<not> u_bot user" and plain: "\<not> is_staff_member STAFF_ROLES user"
    and cached: "watched_users (watch_command STAFF_ROLES w ctx user reason rf resp) (u_id user)
                   = Some (resp_json resp)"
    by simp_all
  from listed have "map_of (map (\<lambda>n. (n_user n, Nomination n)) active) (u_id user) \<noteq> None"
    by (simp only: refreshed_contains)
  with human plain cached show ?thesis
    by (simp add: watch_command_def)
qed

lemma sample_first_watch:
  "watch_command sample_staff_roles Map.empty sample_ctx sample_user ''helpful'' (Refreshed [])
     sample_created
   = returned [42 \<mapsto> Nomination sample_nomination]
       [FetchUserCache, Post ''bot/nominations'' 1 ''helpful'' 42,
        Send (msg_watching sample_user)]"
  by (simp add: watch_command_def is_staff_member_def api_endpoint_def
      sample_user_def sample_ctx_def sample_created_def)

theorem watch_command_then_conflict_witness:
  "watch_command sample_staff_roles [42 \<mapsto> Nomination sample_nomination] sample_ctx sample_user
     ''again'' (Refreshed [sample_nomination]) sample_created
   = returned [42 \<mapsto> Nomination sample_nomination] [FetchUserCache, Send msg_already_watched]"
proof -
  let ?first = "watch_command sample_staff_roles Map.empty sample_ctx sample_user ''helpful''
                  (Refreshed []) sample_created"
  have ok: "outcome ?first = Inr ()"
    by (simp add: sample_first_watch returned_def)
  have sent: "Send (msg_watching sample_user) \<in> set (trace ?first)"
    by (simp add: sample_first_watch returned_def)
  have listed: "u_id sample_user \<in> set (map n_user [sample_nomination])"
    by (simp add: sample_user_def sample_nomination_def)
  have cache: "watched_users ?first = [42 \<mapsto> Nomination sample_nomination]"
    by (simp add: sample_first_watch returned_def)
  have fresh: "map_of (map (\<lambda>n. (n_user n, Nomination n)) [sample_nomination])
                 = [42 \<mapsto> Nomination sample_nomination]"
    by (simp add: sample_nomination_def)
  from watch_command_then_conflict [OF ok sent listed, of sample_ctx "''again''" sample_created]
  show ?thesis
    by (simp only: cache fresh)
qed

text \<open>
  The claim as written has every later watch command answered with the conflict notice.
  After the first watch of the sample user has put the user in the cache, a second one
  whose refresh fails is answered with the refresh error, not the conflict notice; and a
  second one whose refresh no longer lists the user sends a second create request.
\<close>

theorem watch_command_twice_counterexample:
  "watched_users
     (watch_command sample_staff_roles Map.empty sample_ctx sample_user ''helpful''
        (Refreshed []) sample_created) 42 = Some (Nomination sample_nomination)
   \<and> trace (watch_command sample_staff_roles [42 \<mapsto> Nomination sample_nomination] sample_ctx
              sample_user ''again'' RefreshFailed sample_created)
       = [FetchUserCache, Send (msg_cache_failed sample_user)]
   \<and> trace (watch_command sample_staff_roles [42 \<mapsto> Nomination sample_nomination] sample_ctx
              sample_user ''again'' (Refreshed []) sample_created)
       = [FetchUserCache, Post ''bot/nominations'' 1 ''again'' 42,
          Send (msg_watching sample_user)]"
  by (simp add: watch_command_def is_staff_member_def api_endpoint_def returned_def
      sample_user_def sample_ctx_def sample_created_def)

section \<open>Store failures: the soft outcomes and the hard failures\<close>

text \<open>
  C4 (as amended). A failure of the store is answered with a message and a normal return
  in three places, and raised everywhere else.
  \<^item> Watch, past the policy checks: a failed refresh of the cache gives the message that the
    cache could not be updated; no create request is sent and the cache is unchanged.
  \<^item> Watch, with a refreshed cache that does not hold the user: the reply to the create
    request gives the message that the user is not in the database exactly when its status
    is 400 and its body has a \<open>user\<close> entry, and then nothing is put in the cache. Every
    other reply with a status of 400 or more raises, after the single create request, with
    the cache as refreshed. A reply with a status below 400 is taken as the created record.
  \<^item> Edit: a failed fetch gives the message that the nomination cannot be found exactly
    when it is a \<open>ResponseCodeError\<close> with status 404, and then no update is sent; every
    other failure of the fetch is raised again after the single fetch, and a failure of the
    update is raised after the single update.
  \<^item> Unwatch and history: a failure of the query, and for unwatch of the update, is raised
    after the single request, with the cache unchanged.
  Watch raises in no other case than the one above, and edit in no other cases than the
  two above; no request is repeated. The three soft messages differ from each other and
  from every other message of their command.
\<close>

theorem store_failures_soft_or_hard:
  "(\<not> u_bot user \<and> \<not> is_staff_member STAFF_ROLES user
     \<longrightarrow> watch_command STAFF_ROLES w ctx user reason RefreshFailed resp =
          returned w [FetchUserCache, Send (msg_cache_failed user)])
   \<and> (\<not> u_bot user \<and> \<not> is_staff_member STAFF_ROLES user \<and> fetch_user_cache w rf = (True, w1)
      \<and> w1 (u_id user) = None
     \<longrightarrow> watch_command STAFF_ROLES w ctx user reason rf resp =
          (if resp_status resp = 400 \<and> get_user_truthy (resp_json resp)
           then returned w1
                  [FetchUserCache, Post api_endpoint (author_id ctx) reason (u_id user),
                   Send msg_not_in_database]
           else if 400 \<le> resp_status resp
           then raised (ClientResponseError (resp_status resp)) w1
                  [FetchUserCache, Post api_endpoint (author_id ctx) reason (u_id user)]
           else returned (w1(u_id user \<mapsto> resp_json resp))
                  [FetchUserCache, Post api_endpoint (author_id ctx) reason (u_id user),
                   Send (msg_watching user)]))
   \<and> ((\<exists>x. outcome (watch_command STAFF_ROLES w ctx user reason rf resp) = Inl x)
        = (\<not> u_bot user \<and> \<not> is_staff_member STAFF_ROLES user
           \<and> fst (fetch_user_cache w rf) \<and> snd (fetch_user_cache w rf) (u_id user) = None
           \<and> 400 \<le> resp_status resp
           \<and> \<not> (resp_status resp = 400 \<and> get_user_truthy (resp_json resp))))
   \<and> edit_reason_command w ctx nomination_id reason (Inl e) patched =
          (if e = ResponseCodeError 404
           then returned w
                  [Get (api_endpoint @ ''/'' @ str_int nomination_id) [],
                   LogTrace (log_404 nomination_id), Send (msg_cant_find nomination_id)]
           else raised e w [Get (api_endpoint @ ''/'' @ str_int nomination_id) []])
   \<and> edit_reason_command w ctx nomination_id reason (Inr n) (Inl e) =
          raised e w
            [Get (api_endpoint @ ''/'' @ str_int nomination_id) [],
             LogTrace (log_changing (if n_active n then ''reason'' else ''end_reason'')
                         nomination_id reason),
             Patch (api_endpoint @ ''/'' @ str_int nomination_id)
               [(if n_active n then ''reason'' else ''end_reason'', JStr reason)]]
   \<and> ((\<exists>x. outcome (edit_reason_command w ctx nomination_id reason got patched) = Inl x)
        = ((\<exists>x. got = Inl x \<and> x \<noteq> ResponseCodeError 404)
           \<or> (\<exists>m x. got = Inr m \<and> patched = Inl x)))
   \<and> unwatch_command w ctx user reason (Inl e) patched =
          raised e w
            [Get api_endpoint (api_default_params @ [(''user__id'', str_int (u_id user))])]
   \<and> unwatch_command w ctx user reason (Inr [n]) (Inl e) =
          raised e w
            [Get api_endpoint (api_default_params @ [(''user__id'', str_int (u_id user))]),
             Patch (api_endpoint @ ''/'' @ str_int (n_id n))
               [(''end_reason'', JStr reason), (''active'', JBool False)]]
   \<and> history_command guild format_infraction w ctx user (Inl e) =
          raised e w
            [Get api_endpoint
               [(''user__id'', str_int (u_id user)), (''ordering'', ''-active,-inserted_at'')]]
   \<and> msg_not_in_database
        \<notin> {msg_only_humans ctx, msg_staff, msg_cache_failed user, msg_already_watched,
            msg_watching user}
   \<and> msg_cache_failed user
        \<notin> {msg_only_humans ctx, msg_staff, msg_already_watched, msg_watching user}
   \<and> msg_cant_find nomination_id \<noteq> msg_updated field"
proof -
  have refresh: "\<not> u_bot user \<and> \<not> is_staff_member STAFF_ROLES user
     \<longrightarrow> watch_command STAFF_ROLES w ctx user reason RefreshFailed resp =
          returned w [FetchUserCache, Send (msg_cache_failed user)]"
    by (simp add: watch_command_def)
  have create: "\<not> u_bot user \<and> \<not> is_staff_member STAFF_ROLES user
      \<and> fetch_user_cache w rf = (True, w1) \<and> w1 (u_id user) = None
     \<longrightarrow> watch_command STAFF_ROLES w ctx user reason rf resp =
          (if resp_status resp = 400 \<and> get_user_truthy (resp_json resp)
           then returned w1
                  [FetchUserCache, Post api_endpoint (author_id ctx) reason (u_id user),
                   Send msg_not_in_database]
           else if 400 \<le> resp_status resp
           then raised (ClientResponseError (resp_status resp)) w1
                  [FetchUserCache, Post api_endpoint (author_id ctx) reason (u_id user)]
           else returned (w1(u_id user \<mapsto> resp_json resp))
                  [FetchUserCache, Post api_endpoint (author_id ctx) reason (u_id user),
                   Send (msg_watching user)])"
    by (simp add: watch_command_def Let_def)
  have watch_raises:
    "(\<exists>x. outcome (watch_command STAFF_ROLES w ctx user reason rf resp) = Inl x)
        = (\<not> u_bot user \<and> \<not> is_staff_member STAFF_ROLES user
           \<and> fst (fetch_user_cache w rf) \<and> snd (fetch_user_cache w rf) (u_id user) = None
           \<and> 400 \<le> resp_status resp
           \<and> \<not> (resp_status resp = 400 \<and> get_user_truthy (resp_json resp)))"
    by (cases "fetch_user_cache w rf")
       (auto simp add: watch_command_def Let_def returned_def raised_def)
  have edit_fetch: "edit_reason_command w ctx nomination_id reason (Inl e) patched =
          (if e = ResponseCodeError 404
           then returned w
                  [Get (api_endpoint @ ''/'' @ str_int nomination_id) [],
                   LogTrace (log_404 nomination_id), Send (msg_cant_find nomination_id)]
           else raised e w [Get (api_endpoint @ ''/'' @ str_int nomination_id) []])"
    by (simp add: edit_reason_command_def Let_def)
  have edit_update: "edit_reason_command w ctx nomination_id reason (Inr n) (Inl e) =
          raised e w
            [Get (api_endpoint @ ''/'' @ str_int nomination_id) [],
             LogTrace (log_changing (if n_active n then ''reason'' else ''end_reason'')
                         nomination_id reason),
             Patch (api_endpoint @ ''/'' @ str_int nomination_id)
               [(if n_active n then ''reason'' else ''end_reason'', JStr reason)]]"
    by (simp add: edit_reason_command_def Let_def)
  have edit_raises:
    "(\<exists>x. outcome (edit_reason_command w ctx nomination_id reason got patched) = Inl x)
        = ((\<exists>x. got = Inl x \<and> x \<noteq> ResponseCodeError 404)
           \<or> (\<exists>m x. got = Inr m \<and> patched = Inl x))"
    by (cases got; cases patched)
       (auto simp add: edit_reason_command_def Let_def returned_def raised_def)
  have unwatch_query: "unwatch_command w ctx user reason (Inl e) patched =
          raised e w
            [Get api_endpoint (api_default_params @ [(''user__id'', str_int (u_id user))])]"
    by (simp add: unwatch_command_def Let_def)
  have unwatch_update: "unwatch_command w ctx user reason (Inr [n]) (Inl e) =
          raised e w
            [Get api_endpoint (api_default_params @ [(''user__id'', str_int (u_id user))]),
             Patch (api_endpoint @ ''/'' @ str_int (n_id n))
               [(''end_reason'', JStr reason), (''active'', JBool False)]]"
    by (simp add: unwatch_command_def Let_def)
  have history: "history_command guild format_infraction w ctx user (Inl e) =
          raised e w
            [Get api_endpoint
               [(''user__id'', str_int (u_id user)), (''ordering'', ''-active,-inserted_at'')]]"
    by (simp add: history_command_def Let_def)
  have distinct_create: "msg_not_in_database
        \<notin> {msg_only_humans ctx, msg_staff, msg_cache_failed user, msg_already_watched,
            msg_watching user}"
    by (simp add: watch_msg_defs)
  have distinct_refresh: "msg_cache_failed user
        \<notin> {msg_only_humans ctx, msg_staff, msg_already_watched, msg_watching user}"
    by (simp add: watch_msg_defs)
  have distinct_edit: "msg_cant_find nomination_id \<noteq> msg_updated field"
    by (simp add: msg_cant_find_def msg_updated_def)
  from refresh create watch_raises edit_fetch edit_update edit_raises unwatch_query
    unwatch_update history distinct_create distinct_refresh distinct_edit
  show ?thesis
    by (intro conjI)
qed

theorem store_failures_soft_or_hard_witness:
  "watch_command sample_staff_roles Map.empty sample_ctx sample_user ''helpful'' (Refreshed [])
     sample_unknown_user
   = returned Map.empty
       [FetchUserCache, Post api_endpoint 1 ''helpful'' 42, Send msg_not_in_database]
   \<and> watch_command sample_staff_roles Map.empty sample_ctx sample_user ''helpful'' (Refreshed [])
       \<lparr>resp_status = 500, resp_json = FieldErrors []\<rparr>
     = raised (ClientResponseError 500) Map.empty
         [FetchUserCache, Post api_endpoint 1 ''helpful'' 42]
   \<and> watch_command sample_staff_roles Map.empty sample_ctx sample_user ''helpful'' RefreshFailed
       sample_created
     = returned Map.empty [FetchUserCache, Send (msg_cache_failed sample_user)]"
proof -
  have human: "\<not> u_bot sample_user"
    by (simp add: sample_user_def)
  have refreshed: "fetch_user_cache Map.empty (Refreshed []) = (True, Map.empty)"
    by simp
  have passed: "\<not> u_bot sample_user \<and> \<not> is_staff_member sample_staff_roles sample_user"
    using human not_staff_sample_user by simp
  have reached: "\<not> u_bot sample_user \<and> \<not> is_staff_member sample_staff_roles sample_user
      \<and> fetch_user_cache Map.empty (Refreshed []) = (True, Map.empty)
      \<and> Map.empty (u_id sample_user) = None"
    using human not_staff_sample_user refreshed by simp
  have ids: "author_id sample_ctx = 1" "u_id sample_user = 42"
    by (simp_all add: sample_ctx_def sample_user_def)
  from store_failures_soft_or_hard
         [of sample_user sample_staff_roles Map.empty sample_ctx "''helpful''" sample_created,
          THEN conjunct1, rule_format, OF passed]
  have zeroth: "watch_command sample_staff_roles Map.empty sample_ctx sample_user ''helpful''
                  RefreshFailed sample_created
                = returned Map.empty [FetchUserCache, Send (msg_cache_failed sample_user)]" .
  from store_failures_soft_or_hard
         [of sample_user sample_staff_roles Map.empty sample_ctx "''helpful''"
            sample_unknown_user "Refreshed []" Map.empty,
          THEN conjunct2, THEN conjunct1, rule_format, OF reached]
  have first: "watch_command sample_staff_roles Map.empty sample_ctx sample_user ''helpful''
                 (Refreshed []) sample_unknown_user
               = returned Map.empty
                   [FetchUserCache, Post api_endpoint 1 ''helpful'' 42, Send msg_not_in_database]"
    by (simp add: ids sample_unknown_user_def)
  from store_failures_soft_or_hard
         [of sample_user sample_staff_roles Map.empty sample_ctx "''helpful''"
            "\<lparr>resp_status = 500, resp_json = FieldErrors []\<rparr>" "Refreshed []" Map.empty,
          THEN conjunct2, THEN conjunct1, rule_format, OF reached]
  have second: "watch_command sample_staff_roles Map.empty sample_ctx sample_user ''helpful''
                  (Refreshed []) \<lparr>resp_status = 500, resp_json = FieldErrors []\<rparr>
                = raised (ClientResponseError 500) Map.empty
                    [FetchUserCache, Post api_endpoint 1 ''helpful'' 42]"
    by (simp add: ids)
  from first second zeroth show ?thesis
    by (intro conjI)
qed

text \<open>
  The claim as written has exactly two soft outcomes and every other failure raised. The
  watch command past the policy checks answers a failed refresh of the cache with a
  message and returns normally, and it takes a reply to the create request with status 302
  as the created record: it caches the body and confirms.
\<close>

theorem store_failures_third_soft_counterexample:
  "watch_command sample_staff_roles [44 \<mapsto> Nomination sample_ended] sample_ctx sample_user
     ''helpful'' RefreshFailed sample_created
   = \<lparr>outcome = Inr (), watched_users = [44 \<mapsto> Nomination sample_ended],
      trace = [FetchUserCache,
               Send '':x: Failed to update the user cache; can't add nominee#0042'']\<rparr>
   \<and> watch_command sample_staff_roles Map.empty sample_ctx sample_user ''helpful''
       (Refreshed []) \<lparr>resp_status = 302, resp_json = FieldErrors []\<rparr>
     = \<lparr>outcome = Inr (), watched_users = [42 \<mapsto> FieldErrors []],
        trace = [FetchUserCache, Post ''bot/nominations'' 1 ''helpful'' 42,
                 Send (msg_watching sample_user)]\<rparr>"
  by (simp add: watch_command_def is_staff_member_def returned_def api_endpoint_def
      msg_cache_failed_def sample_user_def sample_ctx_def)

section \<open>Ending a nomination\<close>

text \<open>
  C5. When the store answers the query with the one active nomination of the user, the
  unwatch command sends the partial update that sets \<open>end_reason\<close> to the given reason
  and \<open>active\<close> to false. If the update fails the command raises the failure and the cache
  is what it was, so a user who was in it is still in it. If the update succeeds the
  command confirms to the user and then evicts the user from the cache: the eviction is the
  last thing it does, and the user is not in the cache afterwards. Whatever the store
  answers, the command evicts the user only when the query gave one record and the update
  of that record succeeded.
\<close>

theorem unwatch_command_evicts_after_update:
  "unwatch_command w ctx user reason (Inr [n]) (Inl e) =
     raised e w
       [Get api_endpoint (api_default_params @ [(''user__id'', str_int (u_id user))]),
        Patch (api_endpoint @ ''/'' @ str_int (n_id n))
          [(''end_reason'', JStr reason), (''active'', JBool False)]]
   \<and> unwatch_command w ctx user reason (Inr [n]) (Inr n') =
       returned (remove_user_entry w (u_id user))
         [Get api_endpoint (api_default_params @ [(''user__id'', str_int (u_id user))]),
          Patch (api_endpoint @ ''/'' @ str_int (n_id n))
            [(''end_reason'', JStr reason), (''active'', JBool False)],
          Send (msg_unwatched user), RemoveUser (u_id user)]
   \<and> remove_user_entry w (u_id user) (u_id user) = None
   \<and> (RemoveUser (u_id user) \<in> set (trace (unwatch_command w ctx user reason got patched))
        \<longrightarrow> (\<exists>m m'. got = Inr [m] \<and> patched = Inr m'))"
proof -
  have only_after:
    "RemoveUser (u_id user) \<in> set (trace (unwatch_command w ctx user reason got patched))
       \<longrightarrow> (\<exists>m m'. got = Inr [m] \<and> patched = Inr m')"
    by (auto simp add: unwatch_command_def Let_def returned_def raised_def
        split: sum.splits list.splits)
  then show ?thesis
    by (simp add: unwatch_command_def remove_user_entry_def Let_def)
qed

theorem unwatch_command_evicts_after_update_witness:
  "watched_users
     (unwatch_command [42 \<mapsto> Nomination sample_nomination] sample_ctx sample_user ''done''
        (Inr [sample_nomination]) (Inr sample_ended)) 42 = None
   \<and> (\<exists>m m'. (Inr [sample_nomination] :: error + nomination list) = Inr [m]
             \<and> (Inr sample_ended :: error + nomination) = Inr m')"
proof -
  have run: "unwatch_command [42 \<mapsto> Nomination sample_nomination] sample_ctx sample_user ''done''
               (Inr [sample_nomination]) (Inr sample_ended)
             = returned (remove_user_entry [42 \<mapsto> Nomination sample_nomination] (u_id sample_user))
                 [Get api_endpoint
                    (api_default_params @ [(''user__id'', str_int (u_id sample_user))]),
                  Patch (api_endpoint @ ''/'' @ str_int (n_id sample_nomination))
                    [(''end_reason'', JStr ''done''), (''active'', JBool False)],
                  Send (msg_unwatched sample_user), RemoveUser (u_id sample_user)]"
    using unwatch_command_evicts_after_update
            [of "[42 \<mapsto> Nomination sample_nomination]" sample_ctx sample_user "''done''"
               sample_nomination]
    by simp
  have evicted: "RemoveUser (u_id sample_user)
                   \<in> set (trace (unwatch_command [42 \<mapsto> Nomination sample_nomination] sample_ctx
                                  sample_user ''done'' (Inr [sample_nomination])
                                  (Inr sample_ended)))"
    by (simp add: run returned_def)
  have gone: "watched_users
                (unwatch_command [42 \<mapsto> Nomination sample_nomination] sample_ctx sample_user
                   ''done'' (Inr [sample_nomination]) (Inr sample_ended)) 42 = None"
    by (subst run) (simp add: returned_def remove_user_entry_def sample_user_def)
  from unwatch_command_evicts_after_update
         [of "[42 \<mapsto> Nomination sample_nomination]" sample_ctx sample_user "''done''"
            sample_nomination _ _ "Inr [sample_nomination]" "Inr sample_ended",
          THEN conjunct2, THEN conjunct2, THEN conjunct2, rule_format, OF evicted]
  have "\<exists>m m'. (Inr [sample_nomination] :: error + nomination list) = Inr [m]
             \<and> (Inr sample_ended :: error + nomination) = Inr m'" .
  with gone show ?thesis
    by (intro conjI)
qed

text \<open>
  C6. When the store answers the query with no record, the unwatch command tells the user
  that there is no active nomination and returns: after the query that message is all it
  does, so no update is sent, and the cache is unchanged.
\<close>

theorem unwatch_command_nothing_to_end:
  "unwatch_command w ctx user reason (Inr []) patched =
     returned w
       [Get api_endpoint (api_default_params @ [(''user__id'', str_int (u_id user))]),
        Send msg_no_active]"
  by (simp add: unwatch_command_def Let_def)

text \<open>
  C7. When the store answers the query with more than one record, unpacking the answer
  into a single nomination raises \<open>ValueError\<close>: the command fails after the query alone,
  so no update is sent and the user is not evicted from the cache.
\<close>

theorem unwatch_command_several_active:
  assumes "1 < length active_nomination"
  shows "unwatch_command w ctx user reason (Inr active_nomination) patched =
           raised ValueError w
             [Get api_endpoint (api_default_params @ [(''user__id'', str_int (u_id user))])]"
proof (cases active_nomination)
  case Nil
  with assms show ?thesis by simp
next
  case (Cons n ns)
  with assms obtain m ms where "ns = m # ms"
    by (cases ns) auto
  with Cons show ?thesis
    by (simp add: unwatch_command_def Let_def)
qed

theorem unwatch_command_several_active_witness:
  "unwatch_command [42 \<mapsto> Nomination sample_nomination] sample_ctx sample_user ''done''
     (Inr [sample_nomination, sample_nomination\<lparr>n_id := 8\<rparr>]) (Inr sample_ended)
   = raised ValueError [42 \<mapsto> Nomination sample_nomination]
       [Get api_endpoint (api_default_params @ [(''user__id'', str_int (u_id sample_user))])]"
proof -
  have several: "1 < length [sample_nomination, sample_nomination\<lparr>n_id := 8\<rparr>]"
    by simp
  from unwatch_command_several_active [OF several] show ?thesis .
qed

section \<open>Editing a reason\<close>

text \<open>
  C8. When the fetch of an edit succeeds, the command sends exactly one partial update,
  whatever the store answers to it, and the JSON object of that update has exactly one
  field, set to the new reason: \<open>reason\<close> when the fetched nomination is active,
  \<open>end_reason\<close> when it is not.
\<close>

theorem edit_reason_command_one_field:
  "patches (trace (edit_reason_command w ctx nomination_id reason (Inr n) patched)) =
     [(api_endpoint @ ''/'' @ str_int nomination_id,
       [(if n_active n then ''reason'' else ''end_reason'', JStr reason)])]"
  by (cases patched) (simp_all add: edit_reason_command_def returned_def raised_def Let_def)

section \<open>Rendering a nomination\<close>




section \<open>Indices of the site rules command\<close>

lemma digit_cases: "k < 10 \<Longrightarrow> k \<in> {0, 1, 2, 3, 4, 5, 6, 7, 8, 9 :: nat}"
  by auto

lemma digit_val_nth: "k < 10 \<Longrightarrow> digit_val (''0123456789'' ! k) = k"
  by (drule digit_cases) (auto simp add: digit_val_def)

lemma digit_nth_in: "k < 10 \<Longrightarrow> ''0123456789'' ! k \<in> set ''0123456789''"
  by (rule nth_mem) simp

lemma str_nat_digits: "set (str_nat n) \<subseteq> set ''0123456789''"
proof (induction n rule: str_nat.induct)
  case (1 n)
  show ?case
  proof (cases "n < 10")
    case True
    with digit_nth_in [of n] show ?thesis
      by (subst str_nat.simps) simp
  next
    case False
    have "n mod 10 < 10" by simp
    from digit_nth_in [OF this] 1 [OF False] False show ?thesis
      by (subst str_nat.simps) simp
  qed
qed

lemma str_nat_not_empty: "str_nat n \<noteq> []"
  by (subst str_nat.simps) simp

lemma nat_of_digits_str_nat: "nat_of_digits (str_nat n) = n"
proof (induction n rule: str_nat.induct)
  case (1 n)
  show ?case
  proof (cases "n < 10")
    case True
    then show ?thesis
      by (subst str_nat.simps) (simp add: nat_of_digits_def digit_val_nth)
  next
    case False
    have "n mod 10 < 10" by simp
    from 1 [OF False] False digit_val_nth [OF this] show ?thesis
      by (subst str_nat.simps) (simp add: nat_of_digits_def)
  qed
qed

lemma str_nat_inj: "str_nat m = str_nat n \<Longrightarrow> m = n"
  by (metis nat_of_digits_str_nat)

lemma str_nat_no_minus: "str_nat n \<noteq> CHR ''-'' # s"
proof
  assume "str_nat n = CHR ''-'' # s"
  then have "CHR ''-'' \<in> set (str_nat n)" by simp
  with str_nat_digits [of n] show False by auto
qed

lemma str_int_inj:
  assumes "str_int i = str_int j"
  shows "i = j"
proof (cases "i < 0")
  case True
  show ?thesis
  proof (cases "j < 0")
    case neg: True
    with True assms have "str_nat (nat (- i)) = str_nat (nat (- j))"
      by (simp add: str_int_def)
    then have "nat (- i) = nat (- j)"
      by (rule str_nat_inj)
    with True neg show ?thesis by simp
  next
    case False
    with True assms have "str_nat (nat j) = CHR ''-'' # str_nat (nat (- i))"
      by (simp add: str_int_def)
    with str_nat_no_minus show ?thesis by blast
  qed
next
  case False
  show ?thesis
  proof (cases "j < 0")
    case True
    with False assms have "str_nat (nat i) = CHR ''-'' # str_nat (nat (- j))"
      by (simp add: str_int_def)
    with str_nat_no_minus show ?thesis by blast
  next
    case nonneg: False
    with False assms have "str_nat (nat i) = str_nat (nat j)"
      by (simp add: str_int_def)
    then have "nat i = nat j"
      by (rule str_nat_inj)
    with False nonneg show ?thesis by simp
  qed
qed

lemma str_int_no_comma: "CHR '','' \<notin> set (str_int i)"
  using str_nat_digits [of "nat i"] str_nat_digits [of "nat (- i)"]
  by (auto simp add: str_int_def)

lemma str_int_not_empty: "str_int i \<noteq> []"
  by (simp add: str_int_def str_nat_not_empty)

lemma join_Cons: "join sep (x # xs) = x @ (if xs = [] then [] else sep @ join sep xs)"
  by (cases xs) simp_all

lemma before_comma:
  assumes "CHR '','' \<notin> set x"
  shows "takeWhile (\<lambda>c. c \<noteq> CHR '','') (x @ (if xs = [] then [] else '', '' @ r)) = x"
proof -
  from assms have "\<And>c. c \<in> set x \<Longrightarrow> c \<noteq> CHR '',''" by auto
  then show ?thesis
    by (cases "xs = []") (simp_all add: takeWhile_append2)
qed

lemma join_comma_inj:
  assumes "\<forall>x \<in> set xs. x \<noteq> [] \<and> CHR '','' \<notin> set x"
    and "\<forall>y \<in> set ys. y \<noteq> [] \<and> CHR '','' \<notin> set y"
    and "join '', '' xs = join '', '' ys"
  shows "xs = ys"
  using assms
proof (induction xs arbitrary: ys)
  case Nil
  then show ?case
    by (cases ys) (auto simp add: join_Cons)
next
  case (Cons x xs)
  show ?case
  proof (cases ys)
    case Nil
    with Cons.prems show ?thesis
      by (auto simp add: join_Cons)
  next
    case (Cons y ys')
    from Cons.prems(1) have x: "x \<noteq> []" "CHR '','' \<notin> set x" by simp_all
    from Cons.prems(2) Cons have y: "y \<noteq> []" "CHR '','' \<notin> set y" by simp_all
    from Cons.prems(3) Cons
    have eq: "x @ (if xs = [] then [] else '', '' @ join '', '' xs)
                = y @ (if ys' = [] then [] else '', '' @ join '', '' ys')"
      by (simp only: join_Cons)
    then have "takeWhile (\<lambda>c. c \<noteq> CHR '','')
                 (x @ (if xs = [] then [] else '', '' @ join '', '' xs))
             = takeWhile (\<lambda>c. c \<noteq> CHR '','')
                 (y @ (if ys' = [] then [] else '', '' @ join '', '' ys'))"
      by simp
    with x(2) y(2) have xy: "x = y"
      by (simp add: before_comma)
    with eq have rest: "(if xs = [] then [] else '', '' @ join '', '' xs)
                      = (if ys' = [] then [] else '', '' @ join '', '' ys')"
      by simp
    have "xs = ys'"
    proof (cases "xs = []")
      case True
      with rest show ?thesis by (auto split: if_splits)
    next
      case False
      with rest have "ys' \<noteq> []" and "join '', '' xs = join '', '' ys'"
        by (auto split: if_splits)
      with Cons.IH [of ys'] Cons.prems(1) Cons.prems(2) Cons show ?thesis
        by simp
    qed
    with xy Cons show ?thesis by simp
  qed
qed

lemma index_listing_inj:
  assumes "join '', '' (map str_int xs) = join '', '' (map str_int ys)"
  shows "xs = ys"
proof -
  have left: "\<forall>x \<in> set (map str_int xs). x \<noteq> [] \<and> CHR '','' \<notin> set x"
    by (auto simp add: str_int_no_comma str_int_not_empty)
  have right: "\<forall>y \<in> set (map str_int ys). y \<noteq> [] \<and> CHR '','' \<notin> set y"
    by (auto simp add: str_int_no_comma str_int_not_empty)
  from left right assms have "map str_int xs = map str_int ys"
    by (rule join_comma_inj)
  moreover have "inj str_int"
    by (rule injI) (rule str_int_inj)
  ultimately show ?thesis
    by (simp add: inj_map_eq_map)
qed

lemma collect_rule_line:
  assumes "\<forall>pick \<in> set rules. 0 \<le> pick \<and> pick < int (length full_rules)"
  shows "collect (rule_line full_rules) rules
           = Inr (map (\<lambda>pick. ''**'' @ str_int pick @ ''.** '' @ full_rules ! nat pick) rules)"
  using assms
  by (induction rules) (simp_all add: rule_line_def getitem_def)

lemma no_invalid_indices:
  "(filter (\<lambda>pick. pick < 0 \<or> int (length full_rules) \<le> pick) rules = [])
     = (\<forall>pick \<in> set rules. 0 \<le> pick \<and> pick < int (length full_rules))"
  by (auto simp add: filter_empty_conv)

text \<open>
  C10. Let the rules have been fetched. If one of the requested indices is negative or not
  below the number of rules, the command sends the text \<open>:x: Invalid rule indices\<close>
  followed by the decimal numerals of the requested indices that are out of range, in the
  order given and separated by a comma and a space, and hands nothing to the paginator.
  That list of numerals determines the indices listed: two lists of indices with the same
  text are the same list, and a numeral read back is the index it was written from. If
  indices are given and all are in range, the command paginates one line for each, read
  from the fetched list at that index. In neither case, nor without indices, does the
  command raise: no read of the fetched list is out of range.
\<close>

theorem site_rules_indices_checked:
  "((\<exists>pick \<in> set rules. pick < 0 \<or> int (length full_rules) \<le> pick)
      \<longrightarrow> site_rules PAGES_URL rules (Inr full_rules)
           = (Inr (), [Get ''rules'' [(''link_format'', ''md'')],
                       Send ('':x: Invalid rule indices ''
                             @ join '', ''
                                 (map str_int
                                    (filter (\<lambda>pick. pick < 0 \<or> int (length full_rules) \<le> pick)
                                       rules)))]))
   \<and> (rules \<noteq> [] \<and> (\<forall>pick \<in> set rules. 0 \<le> pick \<and> pick < int (length full_rules))
      \<longrightarrow> site_rules PAGES_URL rules (Inr full_rules)
           = (Inr (), [Get ''rules'' [(''link_format'', ''md'')],
                       Paginate
                         (map (\<lambda>pick. ''**'' @ str_int pick @ ''.** '' @ full_rules ! nat pick) rules)
                         \<lparr>e_title = ''Rules'', e_colour = Blurple,
                            e_url = Some (PAGES_URL @ ''/rules''), e_description = None\<rparr>]))
   \<and> fst (site_rules PAGES_URL rules (Inr full_rules)) = Inr ()
   \<and> (join '', '' (map str_int picks) = join '', '' (map str_int picks') \<longrightarrow> picks = picks')
   \<and> nat_of_digits (str_nat k) = k
   \<and> str_int (int k) = str_nat k
   \<and> (0 < k \<longrightarrow> str_int (- int k) = CHR ''-'' # str_nat k)"
proof -
  have listing:
    "join '', '' (map str_int picks) = join '', '' (map str_int picks') \<longrightarrow> picks = picks'"
    by (auto dest: index_listing_inj)
  have numerals: "str_int (int k) = str_nat k"
    "0 < k \<longrightarrow> str_int (- int k) = CHR ''-'' # str_nat k"
    by (simp_all add: str_int_def)
  show ?thesis
  proof (cases "\<forall>pick \<in> set rules. 0 \<le> pick \<and> pick < int (length full_rules)")
    case True
    then have none: "filter (\<lambda>pick. pick < 0 \<or> int (length full_rules) \<le> pick) rules = []"
      by (simp only: no_invalid_indices)
    from True
    have valid: "\<not> (\<exists>pick \<in> set rules. pick < 0 \<or> int (length full_rules) \<le> pick)"
      by auto
    from none collect_rule_line [OF True] valid listing numerals show ?thesis
      by (simp add: site_rules_def Let_def nat_of_digits_str_nat)
  next
    case False
    then have some: "filter (\<lambda>pick. pick < 0 \<or> int (length full_rules) \<le> pick) rules \<noteq> []"
      by (simp only: no_invalid_indices not_False_eq_True)
    from False have given: "rules \<noteq> []"
      by auto
    from False some given listing numerals show ?thesis
      by (simp add: site_rules_def Let_def msg_invalid_indices_def nat_of_digits_str_nat)
  qed
qed

theorem site_rules_indices_checked_witness:
  "site_rules ''https://pythondiscord.com/pages'' [1, 5, - 1, 0] (Inr [''Be kind.'', ''No spam.''])
     = (Inr (), [Get ''rules'' [(''link_format'', ''md'')], Send '':x: Invalid rule indices 5, -1''])
   \<and> site_rules ''https://pythondiscord.com/pages'' [1, 0] (Inr [''Be kind.'', ''No spam.''])
     = (Inr (), [Get ''rules'' [(''link_format'', ''md'')],
                 Paginate [''**1.** No spam.'', ''**0.** Be kind.'']
                   \<lparr>e_title = ''Rules'', e_colour = Blurple,
                      e_url = Some ''https://pythondiscord.com/pages/rules'',
                      e_description = None\<rparr>])"
proof -
  have bad: "\<exists>pick \<in> set [1, 5, - 1, 0 :: int].
               pick < 0 \<or> int (length [''Be kind.'', ''No spam.'']) \<le> pick"
    by simp
  have good: "[1, 0 :: int] \<noteq> [] \<and>
                (\<forall>pick \<in> set [1, 0 :: int].
                   0 \<le> pick \<and> pick < int (length [''Be kind.'', ''No spam.'']))"
    by simp
  have digits: "str_int 5 = ''5''" "str_int (- 1) = ''-1''" "str_int 1 = ''1''" "str_int 0 = ''0''"
    by (simp_all add: str_int_def str_nat.simps)
  from site_rules_indices_checked
         [of "[1, 5, - 1, 0]" "[''Be kind.'', ''No spam.'']" "''https://pythondiscord.com/pages''",
          THEN conjunct1, rule_format, OF bad]
  have first: "site_rules ''https://pythondiscord.com/pages'' [1, 5, - 1, 0]
                 (Inr [''Be kind.'', ''No spam.''])
               = (Inr (), [Get ''rules'' [(''link_format'', ''md'')],
                           Send '':x: Invalid rule indices 5, -1''])"
    by (simp add: digits)
  from site_rules_indices_checked
         [of "[1, 0]" "[''Be kind.'', ''No spam.'']" "''https://pythondiscord.com/pages''",
          THEN conjunct2, THEN conjunct1, rule_format, OF good]
  have second: "site_rules ''https://pythondiscord.com/pages'' [1, 0]
                  (Inr [''Be kind.'', ''No spam.''])
                = (Inr (), [Get ''rules'' [(''link_format'', ''md'')],
                            Paginate [''**1.** No spam.'', ''**0.** Be kind.'']
                              \<lparr>e_title = ''Rules'', e_colour = Blurple,
                                 e_url = Some ''https://pythondiscord.com/pages/rules'',
                                 e_description = None\<rparr>])"
    by (simp add: digits)
  from first second show ?thesis
    by simp
qed

end
